theory Spec2Isabelle
  imports Complex_Main "HOL-Library.AList"
begin

section \<open>Hierarchical aggregation of time-stamped measurements\<close>

text \<open>
  The notebook \<^verbatim>\<open>examples/dask-hierarchical-aggregation.ipynb\<close> defines the column-name
  utilities \<^verbatim>\<open>rename\<close>, \<^verbatim>\<open>get_vars_from_flat_cols\<close>, \<^verbatim>\<open>get_cols\<close> and the three
  stages \<^verbatim>\<open>init_agg\<close>, \<^verbatim>\<open>coarsen_agg\<close>, \<^verbatim>\<open>finalize_agg\<close> over dask/pandas dataframes.
  This theory embeds them over an explicit model of the dataframe operations they call.
\<close>

subsection \<open>Floating-point values under real arithmetic\<close>

text \<open>
  A float64 is modelled as a real number or one of the three IEEE special values.
  Finite arithmetic is exact (no rounding, no overflow, no signed zero); the special
  values follow IEEE 754 as numpy applies it, so that \<open>0 / 0\<close> is \<open>NaN\<close> and not HOL's
  \<open>0\<close>.
\<close>

datatype fl = Fin real | PInf | NInf | NaN

definition signed_inf :: "bool \<Rightarrow> fl" where
  "signed_inf pos = (if pos then PInf else NInf)"

fun is_zero :: "fl \<Rightarrow> bool" where
  "is_zero (Fin a) = (a = 0)"
| "is_zero x = False"

fun is_pos :: "fl \<Rightarrow> bool" where
  "is_pos (Fin a) = (0 < a)"
| "is_pos PInf = True"
| "is_pos x = False"

fun fl_neg :: "fl \<Rightarrow> fl" where
  "fl_neg (Fin a) = Fin (- a)"
| "fl_neg PInf = NInf"
| "fl_neg NInf = PInf"
| "fl_neg NaN = NaN"

fun fl_add :: "fl \<Rightarrow> fl \<Rightarrow> fl" where
  "fl_add (Fin a) (Fin b) = Fin (a + b)"
| "fl_add NaN y = NaN"
| "fl_add x NaN = NaN"
| "fl_add PInf NInf = NaN"
| "fl_add NInf PInf = NaN"
| "fl_add PInf y = PInf"
| "fl_add x PInf = PInf"
| "fl_add NInf y = NInf"
| "fl_add x NInf = NInf"

definition fl_sub :: "fl \<Rightarrow> fl \<Rightarrow> fl" where
  "fl_sub x y = fl_add x (fl_neg y)"

fun fl_mul :: "fl \<Rightarrow> fl \<Rightarrow> fl" where
  "fl_mul (Fin a) (Fin b) = Fin (a * b)"
| "fl_mul NaN y = NaN"
| "fl_mul x NaN = NaN"
| "fl_mul x y = (if is_zero x \<or> is_zero y then NaN else signed_inf (is_pos x = is_pos y))"

fun fl_div :: "fl \<Rightarrow> fl \<Rightarrow> fl" where
  "fl_div (Fin a) (Fin b) =
     (if b \<noteq> 0 then Fin (a / b) else if a = 0 then NaN else signed_inf (0 < a))"
| "fl_div NaN y = NaN"
| "fl_div x NaN = NaN"
| "fl_div (Fin a) y = Fin 0"
| "fl_div x (Fin b) = signed_inf (is_pos x = (0 \<le> b))"
| "fl_div x y = NaN"

text \<open>\<^verbatim>\<open>x ** 2\<close> and \<^verbatim>\<open>x ** .5\<close> (C \<^verbatim>\<open>pow\<close>: a negative finite base gives NaN under \<^verbatim>\<open>.5\<close>).\<close>

fun fl_pow2 :: "fl \<Rightarrow> fl" where
  "fl_pow2 (Fin a) = Fin (a * a)"
| "fl_pow2 NaN = NaN"
| "fl_pow2 x = PInf"

fun fl_sqrt :: "fl \<Rightarrow> fl" where
  "fl_sqrt (Fin a) = (if a < 0 then NaN else Fin (sqrt a))"
| "fl_sqrt NaN = NaN"
| "fl_sqrt x = PInf"

fun fl_less :: "fl \<Rightarrow> fl \<Rightarrow> bool" where
  "fl_less (Fin a) (Fin b) = (a < b)"
| "fl_less NaN y = False"
| "fl_less x NaN = False"
| "fl_less NInf y = (y \<noteq> NInf)"
| "fl_less x PInf = (x \<noteq> PInf)"
| "fl_less x y = False"

definition fl_min :: "fl \<Rightarrow> fl \<Rightarrow> fl" where
  "fl_min x y = (if fl_less y x then y else x)"

definition fl_max :: "fl \<Rightarrow> fl \<Rightarrow> fl" where
  "fl_max x y = (if fl_less x y then y else x)"

text \<open>
  The reductions of pandas skip missing values (\<^verbatim>\<open>skipna\<close>): \<^verbatim>\<open>count\<close> counts the
  values that are not NaN, \<^verbatim>\<open>sum\<close> of nothing is \<open>0\<close>, \<^verbatim>\<open>min\<close> and \<^verbatim>\<open>max\<close> of nothing
  are NaN, and \<^verbatim>\<open>var\<close> is the sample variance (\<^verbatim>\<open>ddof=1\<close>), NaN for fewer than two
  values.
\<close>

definition dropna :: "fl list \<Rightarrow> fl list" where
  "dropna xs = filter (\<lambda>x. x \<noteq> NaN) xs"

definition fl_count :: "fl list \<Rightarrow> int" where
  "fl_count xs = int (length (dropna xs))"

definition fl_sum :: "fl list \<Rightarrow> fl" where
  "fl_sum xs = foldl fl_add (Fin 0) (dropna xs)"

definition fl_minimum :: "fl list \<Rightarrow> fl" where
  "fl_minimum xs = (case dropna xs of [] \<Rightarrow> NaN | y # ys \<Rightarrow> foldl fl_min y ys)"

definition fl_maximum :: "fl list \<Rightarrow> fl" where
  "fl_maximum xs = (case dropna xs of [] \<Rightarrow> NaN | y # ys \<Rightarrow> foldl fl_max y ys)"

definition fl_var :: "fl list \<Rightarrow> fl" where
  "fl_var xs =
     (let ys = dropna xs; n = length ys in
      if n \<le> 1 then NaN
      else let m = fl_div (fl_sum ys) (Fin (real n)) in
           fl_div (fl_sum (map (\<lambda>y. fl_pow2 (fl_sub y m)) ys)) (Fin (real n - 1)))"

subsection \<open>Errors\<close>

datatype error = KeyError string | ValueError | TypeError | AttributeError

definition ebind :: "error + 'a \<Rightarrow> ('a \<Rightarrow> error + 'b) \<Rightarrow> error + 'b" where
  "ebind m f = (case m of Inl e \<Rightarrow> Inl e | Inr x \<Rightarrow> f x)"

fun mapE :: "('a \<Rightarrow> error + 'b) \<Rightarrow> 'a list \<Rightarrow> error + 'b list" where
  "mapE f [] = Inr []"
| "mapE f (x # xs) = ebind (f x) (\<lambda>y. ebind (mapE f xs) (\<lambda>ys. Inr (y # ys)))"


fun cols_map2 ::
  "('a \<Rightarrow> 'a \<Rightarrow> error + 'a) \<Rightarrow> 'a list \<Rightarrow> 'a list \<Rightarrow> error + 'a list" where
  "cols_map2 f (x # xs) (y # ys) = ebind (f x y) (\<lambda>z. ebind (cols_map2 f xs ys) (\<lambda>zs. Inr (z # zs)))"
| "cols_map2 f xs ys = Inr []"

subsection \<open>Columns and dataframes\<close>

text \<open>
  A column has one dtype: timestamps (integer nanoseconds since the epoch), grouping-key
  values of an arbitrary type \<open>'k\<close>, int64 (the counts) or float64. A dataframe is its
  index levels (each with an optional name; no level stands for the default
  \<^verbatim>\<open>RangeIndex\<close>) and its labelled columns, in order. Column labels are assumed distinct:
  a label is looked up at its first occurrence.
\<close>

datatype 'k column = Stamps "int list" | Grps "'k list" | Ints "int list" | Nums "fl list"

datatype 'k cell = Stamp int | Grp 'k | IntC int | Num fl

fun cells :: "'k column \<Rightarrow> 'k cell list" where
  "cells (Stamps ts) = map Stamp ts"
| "cells (Grps gs) = map Grp gs"
| "cells (Ints ns) = map IntC ns"
| "cells (Nums xs) = map Num xs"

definition col_len :: "'k column \<Rightarrow> nat" where
  "col_len c = length (cells c)"

record 'k frame =
  index :: "(string option \<times> 'k column) list"
  columns :: "(string \<times> 'k column) list"

definition labels :: "'k frame \<Rightarrow> string list" where
  "labels df = map fst (columns df)"

definition nrows :: "'k frame \<Rightarrow> nat" where
  "nrows df = (case columns df of [] \<Rightarrow> 0 | (l, c) # _ \<Rightarrow> col_len c)"

text \<open>\<^verbatim>\<open>df[label]\<close> and \<^verbatim>\<open>df[[label, ...]]\<close>: a missing label raises \<^verbatim>\<open>KeyError\<close>.\<close>

definition col :: "'k frame \<Rightarrow> string \<Rightarrow> error + 'k column" where
  "col df l = (case map_of (columns df) l of None \<Rightarrow> Inl (KeyError l) | Some c \<Rightarrow> Inr c)"

definition select :: "'k frame \<Rightarrow> string list \<Rightarrow> error + 'k frame" where
  "select df ls = ebind (mapE (col df) ls) (\<lambda>cs. Inr (df\<lparr>columns := zip ls cs\<rparr>))"

text \<open>
  \<^verbatim>\<open>df[label] = column\<close> and \<^verbatim>\<open>df[[label, ...]] = frame\<close>: an existing column is replaced
  in place, a new one is appended; the columns of the right-hand side are taken by
  position (dask pairs them with \<^verbatim>\<open>zip\<close>).
\<close>

definition assign :: "'k frame \<Rightarrow> string \<Rightarrow> 'k column \<Rightarrow> 'k frame" where
  "assign df l c = df\<lparr>columns := AList.update l c (columns df)\<rparr>"

definition assign_cols :: "'k frame \<Rightarrow> string list \<Rightarrow> 'k column list \<Rightarrow> 'k frame" where
  "assign_cols df ls cs = df\<lparr>columns := AList.updates ls cs (columns df)\<rparr>"

text \<open>
  \<^verbatim>\<open>df.columns = labels\<close> on the positional result of an aggregation: pandas raises
  \<^verbatim>\<open>ValueError\<close> (length mismatch) unless there is one label per column.
\<close>

definition set_columns ::
  "(string option \<times> 'k column) list \<Rightarrow> string list \<Rightarrow> 'k column list \<Rightarrow> error + 'k frame" where
  "set_columns ix ls cs =
     (if length ls \<noteq> length cs then Inl ValueError
      else Inr \<lparr>index = ix, columns = zip ls cs\<rparr>)"

text \<open>\<^verbatim>\<open>dd.concat(frames, axis=1)\<close> of frames over the same rows.\<close>

definition concat_cols ::
  "(string option \<times> 'k column) list \<Rightarrow> (string \<times> 'k column) list list \<Rightarrow> 'k frame" where
  "concat_cols ix parts = \<lparr>index = ix, columns = concat parts\<rparr>"

subsubsection \<open>Element-wise arithmetic\<close>

text \<open>
  int64 and float64 columns mix in arithmetic (the integer is converted); true division
  and \<^verbatim>\<open>** .5\<close> always give floats. Other dtypes raise \<^verbatim>\<open>TypeError\<close>.
\<close>

fun nums :: "'k column \<Rightarrow> error + fl list" where
  "nums (Nums xs) = Inr xs"
| "nums (Ints ns) = Inr (map (\<lambda>n. Fin (real_of_int n)) ns)"
| "nums c = Inl TypeError"

fun col_add :: "'k column \<Rightarrow> 'k column \<Rightarrow> error + 'k column" where
  "col_add (Ints a) (Ints b) = Inr (Ints (map2 (+) a b))"
| "col_add x y = ebind (nums x) (\<lambda>a. ebind (nums y) (\<lambda>b. Inr (Nums (map2 fl_add a b))))"

fun col_sub :: "'k column \<Rightarrow> 'k column \<Rightarrow> error + 'k column" where
  "col_sub (Ints a) (Ints b) = Inr (Ints (map2 (-) a b))"
| "col_sub x y = ebind (nums x) (\<lambda>a. ebind (nums y) (\<lambda>b. Inr (Nums (map2 fl_sub a b))))"

fun col_mul :: "'k column \<Rightarrow> 'k column \<Rightarrow> error + 'k column" where
  "col_mul (Ints a) (Ints b) = Inr (Ints (map2 (*) a b))"
| "col_mul x y = ebind (nums x) (\<lambda>a. ebind (nums y) (\<lambda>b. Inr (Nums (map2 fl_mul a b))))"

definition col_div :: "'k column \<Rightarrow> 'k column \<Rightarrow> error + 'k column" where
  "col_div x y = ebind (nums x) (\<lambda>a. ebind (nums y) (\<lambda>b. Inr (Nums (map2 fl_div a b))))"

fun col_sub_int :: "int \<Rightarrow> 'k column \<Rightarrow> error + 'k column" where
  "col_sub_int k (Ints a) = Inr (Ints (map (\<lambda>n. n - k) a))"
| "col_sub_int k (Nums a) = Inr (Nums (map (\<lambda>x. fl_sub x (Fin (real_of_int k))) a))"
| "col_sub_int k c = Inl TypeError"

fun col_pow2 :: "'k column \<Rightarrow> error + 'k column" where
  "col_pow2 (Ints a) = Inr (Ints (map (\<lambda>n. n * n) a))"
| "col_pow2 (Nums a) = Inr (Nums (map fl_pow2 a))"
| "col_pow2 c = Inl TypeError"

definition col_sqrt :: "'k column \<Rightarrow> error + 'k column" where
  "col_sqrt x = ebind (nums x) (\<lambda>a. Inr (Nums (map fl_sqrt a)))"

fun fillna0 :: "'k column \<Rightarrow> 'k column" where
  "fillna0 (Nums a) = Nums (map (\<lambda>x. if x = NaN then Fin 0 else x) a)"
| "fillna0 c = c"

text \<open>\<^verbatim>\<open>astype('float')\<close>; a timestamp or key column does not convert.\<close>

fun astype_float :: "'k column \<Rightarrow> error + 'k column" where
  "astype_float (Nums a) = Inr (Nums a)"
| "astype_float (Ints a) = Inr (Nums (map (\<lambda>n. Fin (real_of_int n)) a))"
| "astype_float (Stamps a) = Inl TypeError"
| "astype_float (Grps a) = Inl ValueError"

text \<open>
  \<^verbatim>\<open>.dt.floor(time_res)\<close>: a resolution is a positive number of nanoseconds, and a
  timestamp is rounded down to a multiple of it. Only a timestamp column has \<^verbatim>\<open>.dt\<close>.
\<close>

definition floor_to :: "int \<Rightarrow> int \<Rightarrow> int" where
  "floor_to time_res t = t - t mod time_res"

fun dt_floor :: "int \<Rightarrow> 'k column \<Rightarrow> error + 'k column" where
  "dt_floor time_res (Stamps ts) =
     (if time_res \<le> 0 then Inl ValueError else Inr (Stamps (map (floor_to time_res) ts)))"
| "dt_floor time_res c = Inl AttributeError"

text \<open>
  \<^verbatim>\<open>rename(df)\<close> relabels the columns \<open>0, 1, ...\<close> so that two frames combine column by
  column: the result is the list of columns by position.
\<close>

definition rename :: "'k frame \<Rightarrow> 'k column list" where
  "rename df = map snd (columns df)"


subsubsection \<open>Resetting the index\<close>

function string_of_nat :: "nat \<Rightarrow> string" where
  "string_of_nat n =
     (if n < 10 then [char_of (48 + n)]
      else string_of_nat (n div 10) @ [char_of (48 + n mod 10)])"
  by pat_completeness auto
termination
  by (relation "measure id") auto

text \<open>
  \<^verbatim>\<open>df.reset_index()\<close> inserts the index levels in front of the columns and leaves the
  default index. An unnamed level is called \<^verbatim>\<open>index\<close> (\<^verbatim>\<open>level_0\<close> when that label is
  taken) if it is the only one and \<^verbatim>\<open>level_i\<close> otherwise; the default index becomes a
  column of row numbers. A label that already exists raises \<^verbatim>\<open>ValueError\<close>.
\<close>

definition default_label :: "'k frame \<Rightarrow> string" where
  "default_label df = (if ''index'' \<in> set (labels df) then ''level_0'' else ''index'')"

definition index_labels :: "'k frame \<Rightarrow> string list" where
  "index_labels df =
     (case index df of
        [] \<Rightarrow> [default_label df]
      | [(nm, c)] \<Rightarrow> [case nm of Some s \<Rightarrow> s | None \<Rightarrow> default_label df]
      | lvs \<Rightarrow> map (\<lambda>(i, nm, c). case nm of Some s \<Rightarrow> s | None \<Rightarrow> ''level_'' @ string_of_nat i)
                 (zip [0..<length lvs] lvs))"

definition index_columns :: "'k frame \<Rightarrow> 'k column list" where
  "index_columns df =
     (case index df of
        [] \<Rightarrow> [Ints (map int [0..<nrows df])]
      | lvs \<Rightarrow> map snd lvs)"

definition reset_index :: "'k frame \<Rightarrow> error + 'k frame" where
  "reset_index df =
     (let ls = index_labels df in
      if \<not> distinct ls \<or> (\<exists>l \<in> set ls. l \<in> set (labels df)) then Inl ValueError
      else Inr \<lparr>index = [], columns = zip ls (index_columns df) @ columns df\<rparr>)"

subsubsection \<open>Grouping\<close>

text \<open>
  The key of a row is the list of its cells in the grouping columns. The groups are the
  distinct keys in order of first occurrence (\<^verbatim>\<open>pd_unique\<close>), and \<^verbatim>\<open>firsts\<close> takes
  from a column the row where each key first occurs: the first row, then the same of the
  rows with another key. No statement below depends on the order of the groups, which
  pandas sorts and dask does not. Key values are never missing.
\<close>

fun row_keys :: "'k column list \<Rightarrow> 'k cell list list" where
  "row_keys [] = []"
| "row_keys [c] = map (\<lambda>x. [x]) (cells c)"
| "row_keys (c # cs) = map2 (#) (cells c) (row_keys cs)"

fun uniq_on :: "('a \<Rightarrow> 'g) \<Rightarrow> 'a list \<Rightarrow> 'a list" where
  "uniq_on f [] = []"
| "uniq_on f (x # xs) = x # uniq_on f (filter (\<lambda>y. f y \<noteq> f x) xs)"

fun pd_unique :: "'a list \<Rightarrow> 'a list" where
  "pd_unique [] = []"
| "pd_unique (x # xs) = x # pd_unique (filter (\<lambda>y. y \<noteq> x) xs)"

definition firsts :: "'g list \<Rightarrow> 'a list \<Rightarrow> 'a list" where
  "firsts keys xs = map snd (uniq_on fst (zip keys xs))"

fun col_firsts :: "'g list \<Rightarrow> 'k column \<Rightarrow> 'k column" where
  "col_firsts keys (Stamps ts) = Stamps (firsts keys ts)"
| "col_firsts keys (Grps gs) = Grps (firsts keys gs)"
| "col_firsts keys (Ints ns) = Ints (firsts keys ns)"
| "col_firsts keys (Nums xs) = Nums (firsts keys xs)"

definition group_vals :: "'g \<Rightarrow> 'g list \<Rightarrow> 'a list \<Rightarrow> 'a list" where
  "group_vals g keys xs = map snd (filter (\<lambda>(k, x). k = g) (zip keys xs))"

text \<open>
  The aggregations the code names: \<^verbatim>\<open>'count'\<close>, \<^verbatim>\<open>'sum'\<close>, \<^verbatim>\<open>'var'\<close>, \<^verbatim>\<open>'max'\<close>,
  \<^verbatim>\<open>'min'\<close>. The code takes \<^verbatim>\<open>min\<close> and \<^verbatim>\<open>max\<close> of float columns only (\<^verbatim>\<open>init_agg\<close>
  casts every variable to float first); on another dtype the model gives \<^verbatim>\<open>TypeError\<close>,
  as it does for the sum of a timestamp or key column.
\<close>

datatype aggfn = Agg_count | Agg_sum | Agg_var | Agg_max | Agg_min

fun agg_col ::
  "aggfn \<Rightarrow> 'g list \<Rightarrow> 'g list \<Rightarrow> 'k column \<Rightarrow> error + 'k column" where
  "agg_col Agg_count keys gs (Nums xs) = Inr (Ints (map (\<lambda>g. fl_count (group_vals g keys xs)) gs))"
| "agg_col Agg_count keys gs c =
     Inr (Ints (map (\<lambda>g. int (length (group_vals g keys (cells c)))) gs))"
| "agg_col Agg_sum keys gs (Nums xs) = Inr (Nums (map (\<lambda>g. fl_sum (group_vals g keys xs)) gs))"
| "agg_col Agg_sum keys gs (Ints ns) = Inr (Ints (map (\<lambda>g. sum_list (group_vals g keys ns)) gs))"
| "agg_col Agg_sum keys gs c = Inl TypeError"
| "agg_col Agg_var keys gs c =
     ebind (nums c) (\<lambda>xs. Inr (Nums (map (\<lambda>g. fl_var (group_vals g keys xs)) gs)))"
| "agg_col Agg_max keys gs (Nums xs) = Inr (Nums (map (\<lambda>g. fl_maximum (group_vals g keys xs)) gs))"
| "agg_col Agg_max keys gs c = Inl TypeError"
| "agg_col Agg_min keys gs (Nums xs) = Inr (Nums (map (\<lambda>g. fl_minimum (group_vals g keys xs)) gs))"
| "agg_col Agg_min keys gs c = Inl TypeError"

text \<open>
  \<^verbatim>\<open>df.groupby(by)\<close>: every label of \<^verbatim>\<open>by\<close> must be a column (\<^verbatim>\<open>KeyError\<close>). The
  grouped frame keeps the frame, the labels and the key columns.
\<close>

type_synonym 'k grouped = "'k frame \<times> string list \<times> 'k column list"

definition groupby :: "'k frame \<Rightarrow> string list \<Rightarrow> error + 'k grouped" where
  "groupby df by = ebind (mapE (col df) by) (\<lambda>bcs. Inr (df, by, bcs))"

definition group_index :: "'k grouped \<Rightarrow> (string option \<times> 'k column) list" where
  "group_index g = (case g of (df, by, bcs) \<Rightarrow>
     zip (map Some by) (map (col_firsts (row_keys bcs)) bcs))"

text \<open>
  \<^verbatim>\<open>grouped[labels].transform('sum')\<close>: every row gets the sum over its group; the
  result is used by position (\<^verbatim>\<open>rename\<close>).
\<close>

fun transform_sum_col :: "'g list \<Rightarrow> 'k column \<Rightarrow> error + 'k column" where
  "transform_sum_col keys (Nums xs) = Inr (Nums (map (\<lambda>k. fl_sum (group_vals k keys xs)) keys))"
| "transform_sum_col keys (Ints ns) = Inr (Ints (map (\<lambda>k. sum_list (group_vals k keys ns)) keys))"
| "transform_sum_col keys c = Inl TypeError"

definition transform_sum :: "'k grouped \<Rightarrow> string list \<Rightarrow> error + 'k column list" where
  "transform_sum g ls = (case g of (df, by, bcs) \<Rightarrow>
     ebind (mapE (col df) ls) (\<lambda>cs. mapE (transform_sum_col (row_keys bcs)) cs))"

text \<open>
  \<^verbatim>\<open>grouped.agg([f, ...])\<close> applies every function to every column that is not a
  grouping column; the result, indexed by the groups, has one column per (column,
  function) pair, column by column. It is returned by position, since the code replaces
  its two-level labels at once.
\<close>

definition agg_all ::
  "'k grouped \<Rightarrow> aggfn list \<Rightarrow> error + (string option \<times> 'k column) list \<times> 'k column list" where
  "agg_all g fns = (case g of (df, by, bcs) \<Rightarrow>
     let keys = row_keys bcs; gs = pd_unique keys in
     ebind (mapE (\<lambda>(f, c). agg_col f keys gs c)
              (concat (map (\<lambda>(l, c). map (\<lambda>f. (f, c)) fns)
                 (filter (\<lambda>(l, c). l \<notin> set by) (columns df)))))
       (\<lambda>acs. Inr (group_index g, acs)))"

text \<open>
  \<^verbatim>\<open>grouped.agg({label: f, ...})\<close> aggregates the named columns (\<^verbatim>\<open>KeyError\<close> when one
  is missing) and labels the result by the dictionary's keys, in their order.
\<close>

definition agg_dict :: "'k grouped \<Rightarrow> (string \<times> aggfn) list \<Rightarrow> error + 'k frame" where
  "agg_dict g spec = (case g of (df, by, bcs) \<Rightarrow>
     let keys = row_keys bcs; gs = pd_unique keys in
     ebind (mapE (\<lambda>(l, f). ebind (col df l) (\<lambda>c. ebind (agg_col f keys gs c) (\<lambda>a. Inr (l, a)))) spec)
       (\<lambda>acs. Inr \<lparr>index = group_index g, columns = acs\<rparr>))"

subsection \<open>Column names\<close>

text \<open>\<^verbatim>\<open>col.split('.')\<close> and \<^verbatim>\<open>'.'.join(parts)\<close>; \<^verbatim>\<open>pd.unique\<close> is \<^verbatim>\<open>pd_unique\<close> above.\<close>

fun split_dot :: "string \<Rightarrow> string list" where
  "split_dot [] = [[]]"
| "split_dot (c # cs) =
     (if c = CHR ''.'' then [] # split_dot cs
      else (case split_dot cs of [] \<Rightarrow> [[c]] | w # ws \<Rightarrow> (c # w) # ws))"

fun join_dot :: "string list \<Rightarrow> string" where
  "join_dot [] = []"
| "join_dot [w] = w"
| "join_dot (w # ws) = w @ ''.'' @ join_dot ws"

definition get_vars_from_flat_cols :: "'k frame \<Rightarrow> string list \<Rightarrow> string list" where
  "get_vars_from_flat_cols df not_vars =
     pd_unique (map (\<lambda>col. join_dot (butlast (split_dot col)))
                  (filter (\<lambda>col. col \<notin> set not_vars) (labels df)))"

definition get_cols :: "string list \<Rightarrow> string \<Rightarrow> string list" where
  "get_cols variables agg_type = map (\<lambda>x. x @ ''.'' @ agg_type) variables"

text \<open>\<^verbatim>\<open>chain.from_iterable(zip(a, b, ...))\<close> for five and for four lists.\<close>

definition chain_zip5 :: "'a list \<Rightarrow> 'a list \<Rightarrow> 'a list \<Rightarrow> 'a list \<Rightarrow> 'a list \<Rightarrow> 'a list" where
  "chain_zip5 as bs cs ds es =
     concat (map (\<lambda>(a, b, c, d, e). [a, b, c, d, e]) (zip as (zip bs (zip cs (zip ds es)))))"

definition chain_zip4 :: "'a list \<Rightarrow> 'a list \<Rightarrow> 'a list \<Rightarrow> 'a list \<Rightarrow> 'a list" where
  "chain_zip4 as bs cs ds =
     concat (map (\<lambda>(a, b, c, d). [a, b, c, d]) (zip as (zip bs (zip cs ds))))"

subsection \<open>The three stages\<close>

text \<open>
  \<^verbatim>\<open>init_agg(df_raw, time_res, grouping_cols)\<close>. The raw frame is indexed by time: the
  name of its single index level names the time column (\<^verbatim>\<open>assign(**{time_col: ...})\<close>
  needs a string, so an unnamed index raises \<^verbatim>\<open>TypeError\<close>). The aggregated columns are
  labelled count, sum, sum\_sq\_diff, max, min for each variable.
\<close>

definition init_agg :: "'k frame \<Rightarrow> int \<Rightarrow> string list \<Rightarrow> error + 'k frame" where
  "init_agg df_raw time_res grouping_cols =
     (let variables = filter (\<lambda>col. col \<notin> set grouping_cols) (labels df_raw) in
      case index df_raw of
        [(Some time_col, ix)] \<Rightarrow>
          ebind (dt_floor time_res ix) (\<lambda>floored.
          let df_raw = (assign df_raw time_col floored)\<lparr>index := []\<rparr> in
          ebind (select df_raw variables) (\<lambda>vs.
          ebind (mapE astype_float (rename vs)) (\<lambda>fs.
          let df_raw = assign_cols df_raw variables fs in
          ebind (groupby df_raw (grouping_cols @ [time_col])) (\<lambda>grouped.
          ebind (agg_all grouped [Agg_count, Agg_sum, Agg_var, Agg_max, Agg_min]) (\<lambda>(ix, acs).
          let cols = get_cols variables in
          ebind (set_columns ix
                   (chain_zip5 (cols ''count'') (cols ''sum'') (cols ''sum_sq_diff'')
                      (cols ''max'') (cols ''min'')) acs) (\<lambda>df_agg.
          ebind (select df_agg (cols ''sum_sq_diff'')) (\<lambda>s.
          let sum_sq_diffs = rename s in
          ebind (select df_agg (cols ''count'')) (\<lambda>c.
          let counts = rename c in
          ebind (mapE (col_sub_int 1) counts) (\<lambda>counts_1.
          ebind (cols_map2 col_mul (map fillna0 sum_sq_diffs) counts_1) (\<lambda>new.
          Inr (assign_cols df_agg (cols ''sum_sq_diff'') new)))))))))))
      | _ \<Rightarrow> Inl TypeError)"

text \<open>
  \<^verbatim>\<open>coarsen_agg(df_agg, time_res, time_col, grouping_cols)\<close>. The variables are read off
  the columns of the frame as it was passed in; the result lists count, sum,
  sum\_sq\_diff, min, max for each variable.
\<close>

definition coarsen_agg ::
  "'k frame \<Rightarrow> int \<Rightarrow> string \<Rightarrow> string list \<Rightarrow> error + 'k frame" where
  "coarsen_agg df_agg time_res time_col grouping_cols =
     ebind (if \<exists>var \<in> set (grouping_cols @ [time_col]). var \<notin> set (labels df_agg)
            then reset_index df_agg else Inr df_agg) (\<lambda>df_coarse.
     ebind (col df_coarse time_col) (\<lambda>tc.
     ebind (dt_floor time_res tc) (\<lambda>floored.
     let df_coarse = assign df_coarse time_col floored;
         cols = get_cols (get_vars_from_flat_cols df_agg (grouping_cols @ [time_col])) in
     ebind (select df_coarse (cols ''count'')) (\<lambda>c.
     let counts = rename c in
     ebind (select df_coarse (cols ''sum'')) (\<lambda>s.
     let sums' = rename s in
     ebind (groupby df_coarse (grouping_cols @ [time_col])) (\<lambda>df_coarse_grouped.
     ebind (transform_sum df_coarse_grouped (cols ''count'')) (\<lambda>coarse_counts.
     ebind (transform_sum df_coarse_grouped (cols ''sum'')) (\<lambda>coarse_sums.
     ebind (cols_map2 col_div coarse_sums coarse_counts) (\<lambda>coarse_means.
     ebind (select df_coarse (cols ''sum_sq_diff'')) (\<lambda>q.
     let sum_sq_diffs = rename q in
     ebind (cols_map2 col_div sums' counts) (\<lambda>means.
     ebind (cols_map2 col_sub means coarse_means) (\<lambda>diffs.
     ebind (mapE col_pow2 diffs) (\<lambda>squares.
     ebind (cols_map2 col_mul counts squares) (\<lambda>corrections.
     ebind (cols_map2 col_add sum_sq_diffs corrections) (\<lambda>new.
     let df_coarse = assign_cols df_coarse (cols ''sum_sq_diff'') new;
         cols_to_agg = chain_zip5 (cols ''count'') (cols ''sum'') (cols ''sum_sq_diff'')
                         (cols ''min'') (cols ''max'');
         agg_functions = concat (replicate (length (cols [])) [Agg_sum, Agg_sum, Agg_sum, Agg_min, Agg_max]) in
     ebind (groupby df_coarse (grouping_cols @ [time_col])) (\<lambda>g.
     agg_dict g (zip cols_to_agg agg_functions)))))))))))))))))"

text \<open>
  \<^verbatim>\<open>finalize_agg(df_agg, time_col, grouping_cols)\<close>. The result lists the grouping
  columns, the time column, then mean, std, min, max for each variable.
\<close>

definition finalize_agg :: "'k frame \<Rightarrow> string \<Rightarrow> string list \<Rightarrow> error + 'k frame" where
  "finalize_agg df_agg time_col grouping_cols =
     ebind (if \<exists>var \<in> set (grouping_cols @ [time_col]). var \<notin> set (labels df_agg)
            then reset_index df_agg else Inr df_agg) (\<lambda>df_agg.
     let cols = get_cols (get_vars_from_flat_cols df_agg (grouping_cols @ [time_col])) in
     ebind (select df_agg (cols ''count'')) (\<lambda>c.
     let counts = rename c in
     ebind (select df_agg (cols ''sum'')) (\<lambda>s.
     let sums' = rename s in
     ebind (select df_agg (cols ''sum_sq_diff'')) (\<lambda>q.
     let sum_sq_diffs = rename q in
     ebind (cols_map2 col_div sums' counts) (\<lambda>ms.
     let means = zip (cols ''mean'') ms in
     ebind (mapE (col_sub_int 1) counts) (\<lambda>counts_1.
     ebind (cols_map2 col_div sum_sq_diffs counts_1) (\<lambda>vars.
     ebind (mapE col_sqrt vars) (\<lambda>ss.
     let stds = zip (cols ''std'') ss in
     ebind (select df_agg (grouping_cols @ [time_col])) (\<lambda>ks.
     ebind (select df_agg (cols ''min'' @ cols ''max'')) (\<lambda>mm.
     let df_final = concat_cols (index df_agg) [columns ks, means, stds, columns mm] in
     select df_final
       (grouping_cols @ [time_col] @
        chain_zip4 (cols ''mean'') (cols ''std'') (cols ''min'') (cols ''max''))))))))))))"

subsection \<open>Statistic suffixes and example frames\<close>

definition lossless_stats :: "string list" where
  "lossless_stats = [''count'', ''sum'', ''sum_sq_diff'', ''min'', ''max'']"

definition frame_undotted :: "unit frame" where
  "frame_undotted = \<lparr>index = [], columns =
     [(''a.count'', Ints []), (''idx'', Ints []), (''a.sum'', Nums [])]\<rparr>"

definition frame_two_vars :: "unit frame" where
  "frame_two_vars = \<lparr>index = [], columns =
     [(''host'', Grps []), (''t'', Stamps []),
      (''p.count'', Ints []), (''p.sum'', Nums []), (''p.sum_sq_diff'', Nums []),
      (''p.min'', Nums []), (''p.max'', Nums []),
      (''a.b.count'', Ints []), (''a.b.sum'', Nums []), (''a.b.sum_sq_diff'', Nums []),
      (''a.b.min'', Nums []), (''a.b.max'', Nums [])]\<rparr>"

text \<open>
  The scenario of the specification: three samples of one variable \<^verbatim>\<open>v\<close> for the key
  \<^verbatim>\<open>A\<close>, at 00:00:00, 00:00:05 and 00:05:00, and the resolution of five minutes.
\<close>

definition five_min :: int where
  "five_min = 300000000000"

definition scenario_raw :: "string frame" where
  "scenario_raw = \<lparr>index = [(Some ''t'', Stamps [0, 5000000000, 300000000000])],
     columns = [(''key'', Grps [''A'', ''A'', ''A'']), (''v'', Nums [Fin 10, Fin 20, Fin 30])]\<rparr>"

definition scenario_lossless :: "string frame" where
  "scenario_lossless =
     \<lparr>index = [(Some ''key'', Grps [''A'', ''A'']), (Some ''t'', Stamps [0, 300000000000])],
      columns = [(''v.count'', Ints [2, 1]), (''v.sum'', Nums [Fin 30, Fin 30]),
        (''v.sum_sq_diff'', Nums [Fin 50, Fin 0]), (''v.max'', Nums [Fin 20, Fin 30]),
        (''v.min'', Nums [Fin 10, Fin 30])]\<rparr>"

definition scenario_final :: "string frame" where
  "scenario_final =
     \<lparr>index = [],
      columns = [(''key'', Grps [''A'', ''A'']), (''t'', Stamps [0, 300000000000]),
        (''v.mean'', Nums [Fin 15, Fin 30]), (''v.std'', Nums [Fin (sqrt 50), NaN]),
        (''v.min'', Nums [Fin 10, Fin 30]), (''v.max'', Nums [Fin 20, Fin 30])]\<rparr>"

definition scenario_coarse :: "string frame" where
  "scenario_coarse =
     \<lparr>index = [(Some ''key'', Grps [''A'']), (Some ''t'', Stamps [0])],
      columns = [(''v.count'', Ints [3]), (''v.sum'', Nums [Fin 60]),
        (''v.sum_sq_diff'', Nums [Fin 200]), (''v.min'', Nums [Fin 10]),
        (''v.max'', Nums [Fin 30])]\<rparr>"

definition scenario_flat :: "string frame" where
  "scenario_flat =
     \<lparr>index = [],
      columns = [(''key'', Grps [''A'', ''A'']), (''t'', Stamps [0, 300000000000]),
        (''v.count'', Ints [2, 1]), (''v.sum'', Nums [Fin 30, Fin 30]),
        (''v.sum_sq_diff'', Nums [Fin 50, Fin 0]), (''v.max'', Nums [Fin 20, Fin 30]),
        (''v.min'', Nums [Fin 10, Fin 30])]\<rparr>"

definition frame_index_clash :: "string frame" where
  "frame_index_clash =
     \<lparr>index = [(Some ''v.count'', Stamps [0])], columns = [(''v.count'', Ints [1])]\<rparr>"

subsection \<open>Buckets: the statistics of one variable in one row\<close>

text \<open>
  A lossless aggregate row carries, for each variable, the count, the sum, the sum of
  squared differences from the bucket's own mean, the minimum and the maximum.
  \<^verbatim>\<open>bucket_of\<close> computes them directly from the samples of a group, and \<^verbatim>\<open>merge_buckets\<close>
  combines sub-buckets as the specification words it: counts and sums add, the extrema
  combine, and the merged sum of squared differences is the sum of the sub-buckets' plus
  \<open>count * (mean - coarse_mean)\<^sup>2\<close> for each sub-bucket.
\<close>

record bucket =
  b_count :: int
  b_sum :: real
  b_ssd :: real
  b_min :: real
  b_max :: real

definition mean :: "real list \<Rightarrow> real" where
  "mean xs = sum_list xs / real (length xs)"

definition sq_dev :: "real list \<Rightarrow> real" where
  "sq_dev xs = (\<Sum>x\<leftarrow>xs. (x - mean xs)\<^sup>2)"

definition bucket_of :: "real list \<Rightarrow> bucket" where
  "bucket_of xs =
     \<lparr>b_count = int (length xs), b_sum = sum_list xs, b_ssd = sq_dev xs,
      b_min = Min (set xs), b_max = Max (set xs)\<rparr>"

definition merge_buckets :: "bucket list \<Rightarrow> bucket" where
  "merge_buckets bs =
     (let n = (\<Sum>b\<leftarrow>bs. b_count b); s = (\<Sum>b\<leftarrow>bs. b_sum b);
          coarse_mean = s / real_of_int n in
      \<lparr>b_count = n, b_sum = s,
       b_ssd = (\<Sum>b\<leftarrow>bs. b_ssd b
                  + real_of_int (b_count b) * (b_sum b / real_of_int (b_count b) - coarse_mean)\<^sup>2),
       b_min = Min (b_min ` set bs), b_max = Max (b_max ` set bs)\<rparr>)"

text \<open>The final statistics of a group of samples, computed directly.\<close>

definition naive_std :: "real list \<Rightarrow> fl" where
  "naive_std xs =
     (if length xs < 2 then NaN else Fin (sqrt (sq_dev xs / (real (length xs) - 1))))"

definition naive_columns :: "string \<Rightarrow> real list list \<Rightarrow> (string \<times> 'k column) list" where
  "naive_columns v groups =
     [(v @ ''.mean'', Nums (map (\<lambda>xs. Fin (mean xs)) groups)),
      (v @ ''.std'', Nums (map naive_std groups)),
      (v @ ''.min'', Nums (map (\<lambda>xs. Fin (Min (set xs))) groups)),
      (v @ ''.max'', Nums (map (\<lambda>xs. Fin (Max (set xs))) groups))]"

text \<open>The columns of one variable in a lossless table, in the order of \<^verbatim>\<open>coarsen_agg\<close>
  and in the order of \<^verbatim>\<open>init_agg\<close> (max before min).\<close>

definition stat_columns :: "string \<Rightarrow> bucket list \<Rightarrow> (string \<times> 'k column) list" where
  "stat_columns v bs =
     [(v @ ''.count'', Ints (map b_count bs)),
      (v @ ''.sum'', Nums (map (\<lambda>b. Fin (b_sum b)) bs)),
      (v @ ''.sum_sq_diff'', Nums (map (\<lambda>b. Fin (b_ssd b)) bs)),
      (v @ ''.min'', Nums (map (\<lambda>b. Fin (b_min b)) bs)),
      (v @ ''.max'', Nums (map (\<lambda>b. Fin (b_max b)) bs))]"

definition stat_columns_init :: "string \<Rightarrow> bucket list \<Rightarrow> (string \<times> 'k column) list" where
  "stat_columns_init v bs =
     [(v @ ''.count'', Ints (map b_count bs)),
      (v @ ''.sum'', Nums (map (\<lambda>b. Fin (b_sum b)) bs)),
      (v @ ''.sum_sq_diff'', Nums (map (\<lambda>b. Fin (b_ssd b)) bs)),
      (v @ ''.max'', Nums (map (\<lambda>b. Fin (b_max b)) bs)),
      (v @ ''.min'', Nums (map (\<lambda>b. Fin (b_min b)) bs))]"

subsection \<open>Well-formed tables\<close>

text \<open>
  A frame is a lossless table for a time column and grouping columns when these are its
  index levels or are among its columns, and every variable that
  \<^verbatim>\<open>get_vars_from_flat_cols\<close> finds has its five statistic columns: an int64 count of at
  least one and finite floats. The key columns \<open>gks\<close>, the bucket starts \<open>ts\<close> and the
  buckets \<open>st v\<close> of every variable \<open>v\<close> describe its content, row by row. Labels are
  distinct, and no key column is named like a derived column of a variable.
\<close>

definition has_stats :: "(string \<times> 'k column) list \<Rightarrow> string \<Rightarrow> bucket list \<Rightarrow> bool" where
  "has_stats cs v bs \<longleftrightarrow>
     map_of cs (v @ ''.count'') = Some (Ints (map b_count bs)) \<and>
     map_of cs (v @ ''.sum'') = Some (Nums (map (\<lambda>b. Fin (b_sum b)) bs)) \<and>
     map_of cs (v @ ''.sum_sq_diff'') = Some (Nums (map (\<lambda>b. Fin (b_ssd b)) bs)) \<and>
     map_of cs (v @ ''.min'') = Some (Nums (map (\<lambda>b. Fin (b_min b)) bs)) \<and>
     map_of cs (v @ ''.max'') = Some (Nums (map (\<lambda>b. Fin (b_max b)) bs))"

definition derived_labels :: "string \<Rightarrow> string list" where
  "derived_labels v =
     map (\<lambda>s. v @ ''.'' @ s)
       [''count'', ''sum'', ''sum_sq_diff'', ''min'', ''max'', ''mean'', ''std'']"

definition lossless_table ::
  "'k frame \<Rightarrow> string \<Rightarrow> string list \<Rightarrow> 'k column list \<Rightarrow> int list \<Rightarrow>
   (string \<Rightarrow> bucket list) \<Rightarrow> bool" where
  "lossless_table df time_col grouping_cols gks ts st \<longleftrightarrow>
     (let need = grouping_cols @ [time_col]; kcs = gks @ [Stamps ts];
          vars = get_vars_from_flat_cols df need in
      distinct need \<and> distinct (labels df) \<and> length gks = length grouping_cols \<and>
      (\<forall>c \<in> set gks. col_len c = length ts) \<and>
      (index df = zip (map Some need) kcs \<and> (\<forall>l \<in> set need. l \<notin> set (labels df))
       \<or> map (map_of (columns df)) need = map Some kcs) \<and>
      (\<forall>v \<in> set vars.
          has_stats (columns df) v (st v) \<and> length (st v) = length ts \<and>
          (\<forall>b \<in> set (st v). 1 \<le> b_count b) \<and>
          (\<forall>l \<in> set need. l \<notin> set (derived_labels v))))"

text \<open>
  A raw frame is indexed by time and has the grouping columns and the variables as its
  columns; a variable is an int64 column or a float64 column of finite values.
\<close>

fun is_fin :: "fl \<Rightarrow> bool" where
  "is_fin (Fin a) = True"
| "is_fin x = False"

fun the_real :: "fl \<Rightarrow> real" where
  "the_real (Fin a) = a"
| "the_real x = 0"

fun numeric :: "'k column \<Rightarrow> bool" where
  "numeric (Nums xs) = list_all is_fin xs"
| "numeric (Ints ns) = True"
| "numeric c = False"

fun reals_of :: "'k column \<Rightarrow> real list" where
  "reals_of (Nums xs) = map the_real xs"
| "reals_of (Ints ns) = map real_of_int ns"
| "reals_of c = []"

definition raw_frame :: "'k frame \<Rightarrow> string \<Rightarrow> string list \<Rightarrow> int list \<Rightarrow> bool" where
  "raw_frame df time_col grouping_cols ts \<longleftrightarrow>
     index df = [(Some time_col, Stamps ts)] \<and>
     distinct (labels df) \<and> distinct (grouping_cols @ [time_col]) \<and>
     time_col \<notin> set (labels df) \<and> set grouping_cols \<subseteq> set (labels df) \<and>
     (\<forall>(l, c) \<in> set (columns df).
         col_len c = length ts \<and>
         (l \<notin> set grouping_cols \<longrightarrow>
            numeric c \<and> (\<forall>k \<in> set (grouping_cols @ [time_col]). k \<notin> set (derived_labels l))))"

definition column_of :: "'k frame \<Rightarrow> string \<Rightarrow> 'k column" where
  "column_of df l = (case map_of (columns df) l of Some c \<Rightarrow> c | None \<Rightarrow> Nums [])"

text \<open>The row keys of a raw frame at a resolution, and the samples of each group.\<close>

definition raw_key_columns :: "'k frame \<Rightarrow> int \<Rightarrow> string list \<Rightarrow> int list \<Rightarrow> 'k column list" where
  "raw_key_columns df time_res grouping_cols ts =
     map (column_of df) grouping_cols @ [Stamps (map (floor_to time_res) ts)]"

definition samples :: "'g list \<Rightarrow> 'k column \<Rightarrow> real list list" where
  "samples keys c = map (\<lambda>g. group_vals g keys (reals_of c)) (pd_unique keys)"

text \<open>
  The table that merges the rows of a lossless table at a coarser resolution: the rows
  are grouped by the key columns with the bucket starts floored, and the buckets of each
  group are merged.
\<close>

definition coarsened ::
  "string \<Rightarrow> string list \<Rightarrow> 'k column list \<Rightarrow> int list \<Rightarrow> string list \<Rightarrow>
   (string \<Rightarrow> bucket list) \<Rightarrow> int \<Rightarrow> 'k frame" where
  "coarsened time_col grouping_cols gks ts vars st time_res =
     (let kcs = gks @ [Stamps (map (floor_to time_res) ts)]; keys = row_keys kcs in
      \<lparr>index = zip (map Some (grouping_cols @ [time_col])) (map (col_firsts keys) kcs),
       columns = concat (map (\<lambda>v. stat_columns v
                   (map (\<lambda>g. merge_buckets (group_vals g keys (st v))) (pd_unique keys))) vars)\<rparr>)"

section \<open>Properties\<close>

subsection \<open>Variable names from column labels\<close>

lemma split_dot_nonempty: "split_dot s \<noteq> []"
  by (induction s) (auto split: list.splits)

lemma split_dot_dotfree: "CHR ''.'' \<notin> set s \<Longrightarrow> split_dot s = [s]"
  by (induction s) auto

lemma split_dot_append: "split_dot (v @ CHR ''.'' # s) = split_dot v @ split_dot s"
proof (induction v)
  case Nil
  show ?case by simp
next
  case (Cons c v)
  obtain w ws where w: "split_dot v = w # ws"
    using split_dot_nonempty [of v] by (cases "split_dot v") auto
  with Cons show ?case by (auto split: list.splits)
qed

lemma join_dot_Cons_head: "join_dot ((c # w) # ws) = c # join_dot (w # ws)"
  by (cases ws) auto

lemma join_split_dot: "join_dot (split_dot v) = v"
proof (induction v)
  case Nil
  show ?case by simp
next
  case (Cons c v)
  obtain w ws where w: "split_dot v = w # ws"
    using split_dot_nonempty [of v] by (cases "split_dot v") auto
  show ?case
  proof (cases "c = CHR ''.''")
    case True
    with Cons w show ?thesis by simp
  next
    case False
    with Cons w show ?thesis by (simp add: join_dot_Cons_head)
  qed
qed

lemma var_of_col:
  assumes "CHR ''.'' \<notin> set s"
  shows "join_dot (butlast (split_dot (v @ ''.'' @ s))) = v"
  using assms by (simp add: split_dot_append split_dot_dotfree join_split_dot)

lemma var_of_dotfree: "CHR ''.'' \<notin> set c \<Longrightarrow> join_dot (butlast (split_dot c)) = []"
  by (simp add: split_dot_dotfree)

lemma set_pd_unique [simp]: "set (pd_unique xs) = set xs"
  by (induction xs rule: pd_unique.induct) auto

lemma distinct_pd_unique [simp]: "distinct (pd_unique xs)"
  by (induction xs rule: pd_unique.induct) auto


lemma pd_unique_filter_notin:
  "pd_unique (filter (\<lambda>y. y \<notin> S) xs) =
   map (nth xs) (filter (\<lambda>i. xs ! i \<notin> S \<union> set (take i xs)) [0..<length xs])"
proof (induction xs arbitrary: S)
  case Nil
  show ?case by simp
next
  case (Cons x xs)
  have upt: "[0..<length (x # xs)] = 0 # map Suc [0..<length xs]"
    by (simp add: upt_conv_Cons map_Suc_upt del: upt_Suc)
  have ff: "filter (\<lambda>y. y \<noteq> x) (filter (\<lambda>y. y \<notin> S) xs) = filter (\<lambda>y. y \<notin> insert x S) xs"
    by (induction xs) auto
  show ?case
  proof (cases "x \<in> S")
    case True
    then have "insert x S = S" by auto
    then have e: "\<And>i. (xs ! i \<notin> S \<union> set (x # take i xs)) = (xs ! i \<notin> S \<union> set (take i xs))"
      by auto
    show ?thesis
      using True by (simp only: upt) (auto simp add: filter_map comp_def Cons.IH intro!: arg_cong[where f="map ((!) xs)"] filter_cong)
  next
    case False
    have "pd_unique (filter (\<lambda>y. y \<notin> S) (x # xs)) = x # pd_unique (filter (\<lambda>y. y \<notin> insert x S) xs)"
      using False by (simp add: ff del: filter_filter)
    also have "\<dots> = x # map (nth xs)
        (filter (\<lambda>i. xs ! i \<notin> insert x S \<union> set (take i xs)) [0..<length xs])"
      by (simp only: Cons.IH)
    also have "\<dots> = map (nth (x # xs))
        (filter (\<lambda>i. (x # xs) ! i \<notin> S \<union> set (take i (x # xs))) [0..<length (x # xs)])"
      using False by (simp only: upt)
        (auto simp add: filter_map comp_def intro!: arg_cong[where f="map ((!) xs)"] filter_cong)
    finally show ?thesis .
  qed
qed

lemma pd_unique_first_occurrences:
  "pd_unique xs = map (nth xs) (filter (\<lambda>i. xs ! i \<notin> set (take i xs)) [0..<length xs])"
  using pd_unique_filter_notin [of "{}" xs] by simp


text \<open>
  C10. \<^verbatim>\<open>get_vars_from_flat_cols\<close> maps every column that is not in \<^verbatim>\<open>not_vars\<close> to the
  part of its label before the last dot and keeps the first occurrence of each name, in
  order: the result is the list of names whose position is their first. It has no
  duplicates, and a label without a dot contributes the empty name.
\<close>

theorem get_vars_from_flat_cols_dedup:
  "(let names = map (\<lambda>col. join_dot (butlast (split_dot col)))
                  (filter (\<lambda>col. col \<notin> set not_vars) (labels df))
    in get_vars_from_flat_cols df not_vars =
         map (nth names) (filter (\<lambda>i. names ! i \<notin> set (take i names)) [0..<length names]))
   \<and> distinct (get_vars_from_flat_cols df not_vars)
   \<and> (\<forall>c \<in> set (labels df). c \<notin> set not_vars \<and> CHR ''.'' \<notin> set c
          \<longrightarrow> [] \<in> set (get_vars_from_flat_cols df not_vars))"
proof (intro conjI ballI impI)
  show "let names = map (\<lambda>col. join_dot (butlast (split_dot col)))
                  (filter (\<lambda>col. col \<notin> set not_vars) (labels df))
    in get_vars_from_flat_cols df not_vars =
         map (nth names) (filter (\<lambda>i. names ! i \<notin> set (take i names)) [0..<length names])"
    unfolding Let_def get_vars_from_flat_cols_def by (rule pd_unique_first_occurrences)
  show "distinct (get_vars_from_flat_cols df not_vars)"
    by (simp add: get_vars_from_flat_cols_def)
next
  fix c assume c: "c \<in> set (labels df)" "c \<notin> set not_vars \<and> CHR ''.'' \<notin> set c"
  then have "join_dot (butlast (split_dot c)) = []" by (simp add: var_of_dotfree)
  moreover have "c \<in> set (filter (\<lambda>col. col \<notin> set not_vars) (labels df))" using c by simp
  ultimately show "[] \<in> set (get_vars_from_flat_cols df not_vars)"
    unfolding get_vars_from_flat_cols_def set_pd_unique set_map by (metis imageI)
qed

theorem get_vars_from_flat_cols_dedup_witness:
  "''idx'' \<in> set (labels frame_undotted) \<and> ''idx'' \<notin> set [] \<and> CHR ''.'' \<notin> set ''idx''
   \<and> [] \<in> set (get_vars_from_flat_cols frame_undotted [])"
proof -
  have h: "''idx'' \<in> set (labels frame_undotted)" "''idx'' \<notin> set [] \<and> CHR ''.'' \<notin> set ''idx''"
    by (simp_all add: labels_def frame_undotted_def)
  have "\<forall>c \<in> set (labels frame_undotted). c \<notin> set [] \<and> CHR ''.'' \<notin> set c
          \<longrightarrow> [] \<in> set (get_vars_from_flat_cols frame_undotted [])"
    using get_vars_from_flat_cols_dedup [where df = frame_undotted and not_vars = "[]"] by blast
  with h show ?thesis by blast
qed


text \<open>
  C7. When the labels of a frame are the \<^verbatim>\<open>get_cols\<close> labels of a list of variables over
  statistic suffixes (a non-empty list of suffixes without a dot), together with
  non-variable columns that are all passed as \<^verbatim>\<open>not_vars\<close>, \<^verbatim>\<open>get_vars_from_flat_cols\<close>
  returns exactly the variables, each once.
\<close>

theorem get_vars_from_flat_cols_get_cols:
  assumes sfx: "sfx \<noteq> []" "\<forall>s \<in> set sfx. CHR ''.'' \<notin> set s"
    and cols: "set (labels df) = set (concat (map (get_cols variables) sfx)) \<union> set not_vars"
    and nv: "set not_vars \<inter> set (concat (map (get_cols variables) sfx)) = {}"
  shows "set (get_vars_from_flat_cols df not_vars) = set variables
         \<and> distinct (get_vars_from_flat_cols df not_vars)"
proof
  let ?var = "\<lambda>col. join_dot (butlast (split_dot col))"
  let ?gen = "set (concat (map (get_cols variables) sfx))"
  have gen: "?gen = (\<lambda>(s, v). v @ ''.'' @ s) ` (set sfx \<times> set variables)"
    by (auto simp: get_cols_def)
  have "set (filter (\<lambda>col. col \<notin> set not_vars) (labels df)) = ?gen"
    using cols nv by auto
  then have "set (get_vars_from_flat_cols df not_vars) = ?var ` ?gen"
    by (simp add: get_vars_from_flat_cols_def)
  also have "\<dots> = set variables"
  proof (intro equalityI subsetI)
    fix x assume "x \<in> ?var ` ?gen"
    then obtain s v where "s \<in> set sfx" "v \<in> set variables" "x = ?var (v @ ''.'' @ s)"
      unfolding gen by auto
    then show "x \<in> set variables" using sfx(2) var_of_col by auto
  next
    fix x assume x: "x \<in> set variables"
    obtain s where s: "s \<in> set sfx" using sfx(1) by (cases sfx) auto
    then have "?var (x @ ''.'' @ s) = x" using sfx(2) var_of_col by auto
    moreover have "x @ ''.'' @ s \<in> ?gen" unfolding gen using x s by auto
    ultimately show "x \<in> ?var ` ?gen" by (metis imageI)
  qed
  finally show "set (get_vars_from_flat_cols df not_vars) = set variables" .
  show "distinct (get_vars_from_flat_cols df not_vars)"
    by (simp add: get_vars_from_flat_cols_def)
qed


theorem get_vars_from_flat_cols_get_cols_witness:
  "lossless_stats \<noteq> [] \<and> list_all (\<lambda>s. CHR ''.'' \<notin> set s) lossless_stats
   \<and> set (labels frame_two_vars) =
       set (concat (map (get_cols [''p'', ''a.b'']) lossless_stats)) \<union> set [''host'', ''t'']
   \<and> set [''host'', ''t''] \<inter> set (concat (map (get_cols [''p'', ''a.b'']) lossless_stats)) = {}
   \<and> set (get_vars_from_flat_cols frame_two_vars [''host'', ''t'']) = set [''p'', ''a.b'']
   \<and> distinct (get_vars_from_flat_cols frame_two_vars [''host'', ''t''])"
proof -
  have h1: "lossless_stats \<noteq> []" and h2: "\<forall>s \<in> set lossless_stats. CHR ''.'' \<notin> set s"
    by (simp_all add: lossless_stats_def)
  have h3: "set (labels frame_two_vars) =
       set (concat (map (get_cols [''p'', ''a.b'']) lossless_stats)) \<union> set [''host'', ''t'']"
    by code_simp
  have h4: "set [''host'', ''t''] \<inter> set (concat (map (get_cols [''p'', ''a.b'']) lossless_stats)) = {}"
    by (simp add: lossless_stats_def get_cols_def)
  have h2': "list_all (\<lambda>s. CHR ''.'' \<notin> set s) lossless_stats"
    using h2 by (simp add: list_all_iff)
  from get_vars_from_flat_cols_get_cols [OF h1 h2 h3 h4] h1 h2' h3 h4
  show ?thesis by blast
qed

subsection \<open>The scenario of the specification\<close>

lemmas eval_defs = labels_def assign_def
  select_def col_def ebind_def rename_def assign_cols_def groupby_def agg_all_def agg_dict_def
  group_index_def firsts_def floor_to_def group_vals_def fl_count_def fl_sum_def dropna_def
  fl_var_def fl_maximum_def fl_minimum_def fl_max_def fl_min_def fl_sub_def
  set_columns_def chain_zip5_def chain_zip4_def get_cols_def Let_def
  reset_index_def index_labels_def index_columns_def get_vars_from_flat_cols_def
  col_div_def col_sqrt_def concat_cols_def signed_inf_def transform_sum_def

text \<open>
  C6. On the three samples 10, 20 (bucket 00:00:00) and 30 (bucket 00:05:00) of key
  \<^verbatim>\<open>A\<close>, \<^verbatim>\<open>init_agg\<close> at five minutes gives the buckets (count 2, sum 30, sum\_sq\_diff 50,
  min 10, max 20) and (count 1, sum 30, sum\_sq\_diff 0, min 30, max 30), and
  \<^verbatim>\<open>finalize_agg\<close> gives mean 15, std \<open>sqrt 50\<close>, min 10, max 20 and mean 30, std NaN,
  min 30, max 30.
\<close>

theorem scenario_init_finalize:
  "init_agg scenario_raw five_min [''key''] = Inr scenario_lossless
   \<and> finalize_agg scenario_lossless ''t'' [''key''] = Inr scenario_final"
  by (simp add: init_agg_def finalize_agg_def scenario_raw_def scenario_lossless_def
      scenario_final_def five_min_def eval_defs)

subsection \<open>Errors of the dataframe operations\<close>

lemma ebind_isl: "(\<And>x. m = Inr x \<Longrightarrow> isl (f x)) \<Longrightarrow> isl (ebind m f)"
  by (cases m) (auto simp: ebind_def)

lemma ebind_Inl [simp]: "ebind (Inl e) f = Inl e"
  by (simp add: ebind_def)

lemma ebind_Inr [simp]: "ebind (Inr x) f = f x"
  by (simp add: ebind_def)

lemma mapE_missing: "x \<in> set xs \<Longrightarrow> isl (f x) \<Longrightarrow> isl (mapE f xs)"
  by (induction xs) (auto intro!: ebind_isl)

lemma col_isl_iff: "isl (col df l) \<longleftrightarrow> l \<notin> set (labels df)"
  by (auto simp: col_def labels_def map_of_eq_None_iff split: option.splits)
     (metis domI domIff map_of_eq_None_iff)

lemma groupby_missing: "c \<in> set ks \<Longrightarrow> c \<notin> set (labels df) \<Longrightarrow> isl (groupby df ks)"
  unfolding groupby_def by (intro ebind_isl) (use mapE_missing [of c ks "col df"] col_isl_iff in force)

lemma select_missing: "c \<in> set ls \<Longrightarrow> c \<notin> set (labels df) \<Longrightarrow> isl (select df ls)"
  unfolding select_def by (intro ebind_isl) (use mapE_missing [of c ls "col df"] col_isl_iff in force)

lemma labels_assign: "l \<in> set (labels df) \<Longrightarrow> labels (assign df l c) = labels df"
  by (simp add: labels_def assign_def update_keys)

text \<open>
  C9. When the time column or a grouping column is not among the columns,
  \<^verbatim>\<open>coarsen_agg\<close> and \<^verbatim>\<open>finalize_agg\<close> promote the index levels to columns first. If
  that raises, the error reaches the caller; if a required column is still absent, the
  call returns an error (the \<^verbatim>\<open>KeyError\<close> of the column lookup, unless an earlier step
  raised) and no frame; if every required column is then present, \<^verbatim>\<open>finalize_agg\<close>
  does what it does on the promoted frame, and so does \<^verbatim>\<open>coarsen_agg\<close> when every index
  level is a required column.
\<close>

theorem missing_columns_surface_error:
  fixes df :: "'k frame"
  assumes missing: "\<exists>var \<in> set (grouping_cols @ [time_col]). var \<notin> set (labels df)"
  shows "(\<forall>e. reset_index df = Inl e \<longrightarrow>
            coarsen_agg df time_res time_col grouping_cols = Inl e
            \<and> finalize_agg df time_col grouping_cols = Inl e)
       \<and> (\<forall>d. reset_index df = Inr d
              \<and> (\<exists>var \<in> set (grouping_cols @ [time_col]). var \<notin> set (labels d)) \<longrightarrow>
            isl (coarsen_agg df time_res time_col grouping_cols)
            \<and> isl (finalize_agg df time_col grouping_cols))
       \<and> (\<forall>d. reset_index df = Inr d
              \<and> \<not> (\<exists>var \<in> set (grouping_cols @ [time_col]). var \<notin> set (labels d)) \<longrightarrow>
            finalize_agg df time_col grouping_cols = finalize_agg d time_col grouping_cols
            \<and> (set (index_labels df) \<subseteq> set (grouping_cols @ [time_col]) \<longrightarrow>
                 coarsen_agg df time_res time_col grouping_cols =
                 coarsen_agg d time_res time_col grouping_cols))"
proof (intro conjI allI impI)
  fix e assume "reset_index df = Inl e"
  then show "coarsen_agg df time_res time_col grouping_cols = Inl e"
    and "finalize_agg df time_col grouping_cols = Inl e"
    using missing by (simp_all add: coarsen_agg_def finalize_agg_def)
next
  fix d
  assume "reset_index df = Inr d
     \<and> (\<exists>var \<in> set (grouping_cols @ [time_col]). var \<notin> set (labels d))"
  then have d: "reset_index df = Inr d"
    and "\<exists>var \<in> set (grouping_cols @ [time_col]). var \<notin> set (labels d)" by auto
  then obtain c where c: "c \<in> set (grouping_cols @ [time_col])" "c \<notin> set (labels d)"
    by blast
  have "isl (select d (grouping_cols @ [time_col]))"
    by (rule select_missing [OF c])
  then have s': "\<And>x. select d (grouping_cols @ [time_col]) \<noteq> Inr x"
    by (metis sum.disc(2))
  show "isl (finalize_agg df time_col grouping_cols)"
    using missing d unfolding finalize_agg_def Let_def
    by (simp del: set_append) (intro ebind_isl, simp add: s')
  show "isl (coarsen_agg df time_res time_col grouping_cols)"
  proof (cases "time_col \<in> set (labels d)")
    case False
    then have "isl (col d time_col)" by (simp add: col_isl_iff)
    then obtain e where "col d time_col = Inl e" by (cases "col d time_col") auto
    then show ?thesis using missing d by (simp add: coarsen_agg_def)
  next
    case True
    have "\<And>fl. c \<notin> set (labels (assign d time_col fl))"
      using c True by (simp add: labels_assign)
    then have g: "\<And>fl. isl (groupby (assign d time_col fl) (grouping_cols @ [time_col]))"
      using c(1) groupby_missing by blast
    have g': "\<And>fl x. groupby (assign d time_col fl) (grouping_cols @ [time_col]) \<noteq> Inr x"
      using g by (metis sum.disc(2))
    show ?thesis
      using missing d unfolding coarsen_agg_def Let_def
      by (simp del: set_append) (intro ebind_isl, simp add: g')
  qed
next
  fix d
  assume "reset_index df = Inr d
     \<and> \<not> (\<exists>var \<in> set (grouping_cols @ [time_col]). var \<notin> set (labels d))"
  then have d: "reset_index df = Inr d"
    and present: "\<not> (\<exists>var \<in> set (grouping_cols @ [time_col]). var \<notin> set (labels d))"
    by auto
  show "finalize_agg df time_col grouping_cols = finalize_agg d time_col grouping_cols"
    using missing d present unfolding finalize_agg_def by (simp del: set_append)
  assume sub: "set (index_labels df) \<subseteq> set (grouping_cols @ [time_col])"
  have "labels d = index_labels df @ labels df"
    using d by (auto simp: reset_index_def Let_def labels_def index_labels_def
        index_columns_def split: if_splits list.splits)
  then have "filter (\<lambda>col. col \<notin> set (grouping_cols @ [time_col])) (labels d) =
      filter (\<lambda>col. col \<notin> set (grouping_cols @ [time_col])) (labels df)"
    using sub by (auto simp: filter_empty_conv simp del: set_append)
  then have "get_vars_from_flat_cols d (grouping_cols @ [time_col]) =
      get_vars_from_flat_cols df (grouping_cols @ [time_col])"
    by (simp add: get_vars_from_flat_cols_def del: set_append)
  then show "coarsen_agg df time_res time_col grouping_cols =
      coarsen_agg d time_res time_col grouping_cols"
    using missing d present unfolding coarsen_agg_def by (simp del: set_append)
qed

theorem missing_columns_surface_error_witness:
  "(\<exists>var \<in> set ([''key''] @ [''tt'']). var \<notin> set (labels scenario_lossless))
   \<and> reset_index scenario_lossless = Inr scenario_flat
   \<and> (\<exists>var \<in> set ([''key''] @ [''tt'']). var \<notin> set (labels scenario_flat))
   \<and> isl (coarsen_agg scenario_lossless five_min ''tt'' [''key''])
   \<and> isl (finalize_agg scenario_lossless ''tt'' [''key''])
   \<and> (\<exists>var \<in> set ([''key''] @ [''t'']). var \<notin> set (labels scenario_lossless))
   \<and> \<not> (\<exists>var \<in> set ([''key''] @ [''t'']). var \<notin> set (labels scenario_flat))
   \<and> set (index_labels scenario_lossless) \<subseteq> set ([''key''] @ [''t''])
   \<and> finalize_agg scenario_lossless ''t'' [''key''] = finalize_agg scenario_flat ''t'' [''key'']
   \<and> coarsen_agg scenario_lossless five_min ''t'' [''key''] =
       coarsen_agg scenario_flat five_min ''t'' [''key'']
   \<and> (\<exists>var \<in> set ([] @ [''t'']). var \<notin> set (labels frame_index_clash))
   \<and> reset_index frame_index_clash = Inl ValueError
   \<and> coarsen_agg frame_index_clash five_min ''t'' [] = Inl ValueError
   \<and> finalize_agg frame_index_clash ''t'' [] = Inl ValueError"
proof -
  have m1: "\<exists>var \<in> set ([''key''] @ [''tt'']). var \<notin> set (labels scenario_lossless)"
    and m2: "\<exists>var \<in> set ([''key''] @ [''t'']). var \<notin> set (labels scenario_lossless)"
    and m3: "\<exists>var \<in> set ([] @ [''t'']). var \<notin> set (labels frame_index_clash)"
    by (simp_all add: labels_def scenario_lossless_def frame_index_clash_def)
  have r: "reset_index scenario_lossless = Inr scenario_flat"
    by (simp add: reset_index_def index_labels_def index_columns_def labels_def
        scenario_lossless_def scenario_flat_def)
  have r3: "reset_index frame_index_clash = Inl ValueError"
    by (simp add: reset_index_def index_labels_def index_columns_def labels_def
        frame_index_clash_def)
  have a1: "\<exists>var \<in> set ([''key''] @ [''tt'']). var \<notin> set (labels scenario_flat)"
    and p2: "\<not> (\<exists>var \<in> set ([''key''] @ [''t'']). var \<notin> set (labels scenario_flat))"
    by (simp_all add: labels_def scenario_flat_def)
  have i2: "set (index_labels scenario_lossless) \<subseteq> set ([''key''] @ [''t''])"
    by (simp add: index_labels_def scenario_lossless_def)
  note t1 = missing_columns_surface_error [OF m1, where time_res = five_min]
  note t2 = missing_columns_surface_error [OF m2, where time_res = five_min]
  note t3 = missing_columns_surface_error [OF m3, where time_res = five_min]
  have c1: "isl (coarsen_agg scenario_lossless five_min ''tt'' [''key''])
      \<and> isl (finalize_agg scenario_lossless ''tt'' [''key''])"
    using t1 r a1 by blast
  have c2: "finalize_agg scenario_lossless ''t'' [''key''] = finalize_agg scenario_flat ''t'' [''key'']
      \<and> coarsen_agg scenario_lossless five_min ''t'' [''key''] =
          coarsen_agg scenario_flat five_min ''t'' [''key'']"
    using t2 r p2 i2 by blast
  have c3: "coarsen_agg frame_index_clash five_min ''t'' [] = Inl ValueError
      \<and> finalize_agg frame_index_clash ''t'' [] = Inl ValueError"
    using t3 r3 by blast
  show ?thesis using m1 m2 m3 r r3 a1 p2 i2 c1 c2 c3 by blast
qed

end
